theory Spec2Isabelle
  imports Complex_Main
begin

section \<open>Floating-point values\<close>

text \<open>
  The scripts compute with IEEE doubles (Python \<open>float\<close>, numpy \<open>float64\<close>).
  A double is modelled as a real number or one of the three special values; rounding
  is not modelled, the special values and the way comparisons and division treat them
  are.
\<close>

datatype pyfloat = Fin real | PInf | NInf | NaN

fun fl_lt :: "pyfloat \<Rightarrow> pyfloat \<Rightarrow> bool" where
  "fl_lt NaN _ = False"
| "fl_lt _ NaN = False"
| "fl_lt (Fin a) (Fin b) = (a < b)"
| "fl_lt (Fin a) PInf = True"
| "fl_lt (Fin a) NInf = False"
| "fl_lt PInf _ = False"
| "fl_lt NInf NInf = False"
| "fl_lt NInf _ = True"

definition fl_gt :: "pyfloat \<Rightarrow> pyfloat \<Rightarrow> bool" where
  "fl_gt a b = fl_lt b a"


fun fl_neg :: "pyfloat \<Rightarrow> pyfloat" where
  "fl_neg (Fin a) = Fin (- a)"
| "fl_neg PInf = NInf"
| "fl_neg NInf = PInf"
| "fl_neg NaN = NaN"

fun fl_abs :: "pyfloat \<Rightarrow> pyfloat" where
  "fl_abs (Fin a) = Fin \<bar>a\<bar>"
| "fl_abs PInf = PInf"
| "fl_abs NInf = PInf"
| "fl_abs NaN = NaN"

fun fl_add :: "pyfloat \<Rightarrow> pyfloat \<Rightarrow> pyfloat" where
  "fl_add NaN _ = NaN"
| "fl_add _ NaN = NaN"
| "fl_add (Fin a) (Fin b) = Fin (a + b)"
| "fl_add (Fin a) PInf = PInf"
| "fl_add (Fin a) NInf = NInf"
| "fl_add PInf NInf = NaN"
| "fl_add PInf _ = PInf"
| "fl_add NInf PInf = NaN"
| "fl_add NInf _ = NInf"

definition fl_sub :: "pyfloat \<Rightarrow> pyfloat \<Rightarrow> pyfloat" where
  "fl_sub a b = fl_add a (fl_neg b)"

text \<open>The sign of an infinity times a finite factor; zero times infinity is NaN.\<close>

definition fl_signed_inf :: "real \<Rightarrow> pyfloat" where
  "fl_signed_inf a = (if a = 0 then NaN else if 0 < a then PInf else NInf)"

fun fl_mul :: "pyfloat \<Rightarrow> pyfloat \<Rightarrow> pyfloat" where
  "fl_mul NaN _ = NaN"
| "fl_mul _ NaN = NaN"
| "fl_mul (Fin a) (Fin b) = Fin (a * b)"
| "fl_mul (Fin a) PInf = fl_signed_inf a"
| "fl_mul (Fin a) NInf = fl_signed_inf (- a)"
| "fl_mul PInf (Fin b) = fl_signed_inf b"
| "fl_mul NInf (Fin b) = fl_signed_inf (- b)"
| "fl_mul PInf PInf = PInf"
| "fl_mul PInf NInf = NInf"
| "fl_mul NInf PInf = NInf"
| "fl_mul NInf NInf = PInf"

text \<open>
  numpy division of doubles does not raise: a nonzero value over zero is an infinity
  and zero over zero is NaN (a warning is printed). The sign of a zero divisor is not
  modelled; a positive zero is assumed.
\<close>

fun fl_div :: "pyfloat \<Rightarrow> pyfloat \<Rightarrow> pyfloat" where
  "fl_div NaN _ = NaN"
| "fl_div _ NaN = NaN"
| "fl_div (Fin a) (Fin b) = (if b = 0 then fl_signed_inf a else Fin (a / b))"
| "fl_div (Fin a) PInf = Fin 0"
| "fl_div (Fin a) NInf = Fin 0"
| "fl_div PInf (Fin b) = (if 0 \<le> b then PInf else NInf)"
| "fl_div NInf (Fin b) = (if 0 \<le> b then NInf else PInf)"
| "fl_div PInf _ = NaN"
| "fl_div NInf _ = NaN"

fun fl_sqrt :: "pyfloat \<Rightarrow> pyfloat" where
  "fl_sqrt (Fin a) = (if a < 0 then NaN else Fin (sqrt a))"
| "fl_sqrt PInf = PInf"
| "fl_sqrt NInf = NaN"
| "fl_sqrt NaN = NaN"

section \<open>Debris squares: tethers\<close>

text \<open>Module constant \<open>length = 0.6\<close> of \<open>debris_squares_fgout_animate.py\<close>.\<close>

definition length_py :: pyfloat where
  "length_py = Fin (6 / 10)"

text \<open>
  \<open>tether(dbno1, dbno2)\<close>: rest length and stiffness of the tether between two
  particle numbers (Python integers).
\<close>

definition tether :: "int \<Rightarrow> int \<Rightarrow> pyfloat \<times> pyfloat" where
  "tether dbno1 dbno2 =
     (if \<bar>dbno1 - dbno2\<bar> \<in> set [1000, 3000] then (length_py, Fin 50)
      else if \<bar>dbno1 - dbno2\<bar> = 2000 then (fl_mul length_py (fl_sqrt (Fin 2)), Fin 50)
      else (NaN, Fin 0))"

section \<open>Debris squares: particle initialisation\<close>

text \<open>
  One row \<open>[t, x, y, u, v]\<close> of a path array. A path history
  \<open>debris_paths[dbno]\<close> is a two-dimensional array with five columns, here the
  list of its rows.
\<close>

record sample =
  s_t :: pyfloat
  s_x :: pyfloat
  s_y :: pyfloat
  s_u :: pyfloat
  s_v :: pyfloat

text \<open>The module-level dictionaries and lists that the initialisation fills.\<close>

record particles =
  debris_paths :: "int \<rightharpoonup> sample list"
  grounding_depth :: "int \<rightharpoonup> pyfloat"
  drag_factor :: "int \<rightharpoonup> pyfloat"
  mass :: "int \<rightharpoonup> pyfloat"
  dradius :: "int \<rightharpoonup> pyfloat"
  dbnos :: "int list"
  dbnosA :: "int list"

definition u0 :: pyfloat where "u0 = Fin 0"
definition v0 :: pyfloat where "v0 = Fin 0"
definition grounding_depth_common :: pyfloat where "grounding_depth_common = Fin 0"
definition drag_factor_common :: pyfloat where "drag_factor_common = Fin 1"
definition mass_common :: pyfloat where "mass_common = Fin 1"
definition dradius_common :: pyfloat where "dradius_common = Fin (2 / 10)"

definition particles_empty :: particles where
  "particles_empty =
     \<lparr>debris_paths = Map.empty, grounding_depth = Map.empty, drag_factor = Map.empty,
      mass = Map.empty, dradius = Map.empty, dbnos = [], dbnosA = []\<rparr>"

text \<open>
  The statements the loop body repeats for each of the four corners: a one-row path
  array, the id appended to \<open>dbnos\<close>, and the four common properties.
\<close>

definition add_particle :: "pyfloat \<Rightarrow> int \<Rightarrow> pyfloat \<Rightarrow> pyfloat \<Rightarrow> particles \<Rightarrow> particles" where
  "add_particle t0 dbno x y st =
     st\<lparr>debris_paths := (debris_paths st)(dbno \<mapsto> [\<lparr>s_t = t0, s_x = x, s_y = y, s_u = u0, s_v = v0\<rparr>]),
        dbnos := dbnos st @ [dbno],
        grounding_depth := (grounding_depth st)(dbno \<mapsto> grounding_depth_common),
        drag_factor := (drag_factor st)(dbno \<mapsto> drag_factor_common),
        mass := (mass st)(dbno \<mapsto> mass_common),
        dradius := (dradius st)(dbno \<mapsto> dradius_common)\<rparr>"

text \<open>
  The body of \<open>for k in range(len(xgg))\<close>: the lower left corner \<open>dbno = k\<close>
  (also recorded in \<open>dbnosA\<close>) and the paired corners \<open>k + 1000\<close>,
  \<open>k + 2000\<close>, \<open>k + 3000\<close>.
\<close>

definition add_square :: "pyfloat \<Rightarrow> int \<Rightarrow> pyfloat \<Rightarrow> pyfloat \<Rightarrow> particles \<Rightarrow> particles" where
  "add_square t0 k x y st =
     (let dbno = k;
          st1 = add_particle t0 dbno x y st;
          st1 = st1\<lparr>dbnosA := dbnosA st1 @ [dbno]\<rparr>;
          dbno1 = dbno + 1000;
          st2 = add_particle t0 dbno1 x (fl_add y length_py) st1;
          dbno2 = dbno + 2000;
          st3 = add_particle t0 dbno2 (fl_add x length_py) (fl_add y length_py) st2;
          dbno3 = dbno + 3000
      in add_particle t0 dbno3 (fl_add x length_py) y st3)"

text \<open>
  The loop over \<open>k\<close>. The lists \<open>xgg\<close> and \<open>ygg\<close> are appended to together,
  so they are equally long and are given here as one list of points.
\<close>

fun init_loop :: "pyfloat \<Rightarrow> int \<Rightarrow> (pyfloat \<times> pyfloat) list \<Rightarrow> particles \<Rightarrow> particles" where
  "init_loop t0 k [] st = st"
| "init_loop t0 k ((x, y) # pts) st = init_loop t0 (k + 1) pts (add_square t0 k x y st)"

text \<open>\<open>for dbno in dbnos: if mod(dbno,1000) == 0: mass[dbno] = 1e6\<close>\<close>

fun mass_loop :: "int list \<Rightarrow> (int \<rightharpoonup> pyfloat) \<Rightarrow> (int \<rightharpoonup> pyfloat)" where
  "mass_loop [] m = m"
| "mass_loop (dbno # ds) m =
     mass_loop ds (if dbno mod 1000 = 0 then m(dbno \<mapsto> Fin 1000000) else m)"

definition init_particles :: "pyfloat \<Rightarrow> (pyfloat \<times> pyfloat) list \<Rightarrow> particles" where
  "init_particles t0 pts =
     (let st = init_loop t0 0 pts particles_empty
      in st\<lparr>mass := mass_loop (dbnos st) (mass st)\<rparr>)"

text \<open>
  The points of the script: \<open>xgg = [35.54]\<close>, \<open>ygg = [1.22]\<close>, extended by the
  nested loop over \<open>xg1 = [34.34]\<close> and \<open>yg1 = [0.82]\<close>.
\<close>

definition grid_points :: "pyfloat list \<Rightarrow> pyfloat list \<Rightarrow> (pyfloat \<times> pyfloat) list" where
  "grid_points xg1 yg1 =
     (Fin (3554 / 100), Fin (122 / 100)) # concat (map (\<lambda>xg. map (\<lambda>yg. (xg, yg)) yg1) xg1)"

definition script_points :: "(pyfloat \<times> pyfloat) list" where
  "script_points = grid_points [Fin (3434 / 100)] [Fin (82 / 100)]"

section \<open>Exceptions\<close>

text \<open>The Python exceptions that the modelled code can raise, with their argument.\<close>

datatype py_exc =
    KeyError_int int
  | KeyError string
  | IndexError
  | ValueError
  | PyException string
  | OSError string
  | AttributeError string
  | UnboundLocalError string
  | AssertionError string

definition bind_exc :: "py_exc + 'a \<Rightarrow> ('a \<Rightarrow> py_exc + 'b) \<Rightarrow> py_exc + 'b" where
  "bind_exc m f = (case m of Inl e \<Rightarrow> Inl e | Inr a \<Rightarrow> f a)"

section \<open>Debris squares: \<open>make_dbABCD\<close>\<close>

text \<open>\<open>d[k]\<close> on a dictionary with integer keys.\<close>

definition getitem :: "(int \<rightharpoonup> 'v) \<Rightarrow> int \<Rightarrow> py_exc + 'v" where
  "getitem d k = (case d k of None \<Rightarrow> Inl (KeyError_int k) | Some v \<Rightarrow> Inr v)"

text \<open>Row \<open>j\<close> of a path array, for an index \<open>j \<ge> 0\<close>.\<close>

definition row_at :: "sample list \<Rightarrow> nat \<Rightarrow> py_exc + sample" where
  "row_at db j = (if j < length db then Inr (db ! j) else Inl IndexError)"

text \<open>\<open>where(cond)[0]\<close>: the indices at which a one-dimensional condition holds.\<close>

definition np_where_idx :: "bool list \<Rightarrow> nat list" where
  "np_where_idx cond = filter (\<lambda>j. cond ! j) [0..<length cond]"

text \<open>\<open>a.max()\<close> of an index array: ValueError on an empty array.\<close>

definition np_max :: "nat list \<Rightarrow> py_exc + nat" where
  "np_max a = (case a of [] \<Rightarrow> Inl ValueError | x # xs \<Rightarrow> Inr (fold max xs x))"

text \<open>The line printed by the \<open>except\<close> branch: the number and time it is formatted with.\<close>

datatype diag = Did_not_find_path int pyfloat

text \<open>The condition \<open>abs(dbA[:,0]-t) < 1e-6\<close> in one row.\<close>

definition sample_near :: "pyfloat \<Rightarrow> sample \<Rightarrow> bool" where
  "sample_near t s = fl_lt (fl_abs (fl_sub (s_t s) t)) (Fin (1 / 1000000))"

text \<open>
  The \<open>try\<close>/\<open>except\<close> of \<open>make_dbABCD\<close>. The handler is a bare \<open>except\<close>; it prints
  the global \<open>dbno\<close> (the loop variable left over from the initialisation, a parameter
  here), not \<open>dbnoA\<close>, and sets \<open>j = -1\<close>.
\<close>

definition find_row :: "pyfloat \<Rightarrow> int \<Rightarrow> sample list \<Rightarrow> int \<times> diag list" where
  "find_row t dbno dbA =
     (case np_max (np_where_idx (map (sample_near t) dbA)) of
        Inl e \<Rightarrow> (- 1, [Did_not_find_path dbno t])
      | Inr j \<Rightarrow> (int j, []))"

record plot_lines =
  xdAB :: "pyfloat list"
  ydAB :: "pyfloat list"
  printed :: "diag list"

definition plot_lines_empty :: plot_lines where
  "plot_lines_empty = \<lparr>xdAB = [], ydAB = [], printed = []\<rparr>"

text \<open>One pass of \<open>for k in range(len(dbnosA))\<close>, for \<open>dbnoA = dbnosA[k]\<close>.\<close>

definition dbABCD_body ::
  "pyfloat \<Rightarrow> int \<Rightarrow> (int \<rightharpoonup> sample list) \<Rightarrow> int \<Rightarrow> plot_lines \<Rightarrow> py_exc + plot_lines" where
  "dbABCD_body t dbno paths dbnoA acc =
     (let dbnoB = dbnoA + 1000; dbnoC = dbnoA + 2000; dbnoD = dbnoA + 3000 in
      bind_exc (getitem paths dbnoA) (\<lambda>dbA.
      bind_exc (getitem paths dbnoB) (\<lambda>dbB.
      bind_exc (getitem paths dbnoC) (\<lambda>dbC.
      bind_exc (getitem paths dbnoD) (\<lambda>dbD.
        let (j, out) = find_row t dbno dbA;
            acc = acc\<lparr>printed := printed acc @ out\<rparr>
        in if j > - 1 then
             bind_exc (row_at dbA (nat j)) (\<lambda>rA.
             bind_exc (row_at dbB (nat j)) (\<lambda>rB.
             bind_exc (row_at dbC (nat j)) (\<lambda>rC.
             bind_exc (row_at dbD (nat j)) (\<lambda>rD.
               Inr (acc\<lparr>xdAB := xdAB acc @ [s_x rA, s_x rB, s_x rC, s_x rD, s_x rA, NaN],
                        ydAB := ydAB acc @ [s_y rA, s_y rB, s_y rC, s_y rD, s_y rA, NaN]\<rparr>)))))
           else Inr acc)))))"

fun dbABCD_loop ::
  "pyfloat \<Rightarrow> int \<Rightarrow> (int \<rightharpoonup> sample list) \<Rightarrow> int list \<Rightarrow> plot_lines \<Rightarrow> py_exc + plot_lines" where
  "dbABCD_loop t dbno paths [] acc = Inr acc"
| "dbABCD_loop t dbno paths (dbnoA # rest) acc =
     bind_exc (dbABCD_body t dbno paths dbnoA acc) (dbABCD_loop t dbno paths rest)"

text \<open>
  \<open>make_dbABCD(t, debris_paths, dbnosA)\<close>; the extra argument is the global \<open>dbno\<close>.
  The result carries the two arrays and what was printed.
\<close>

definition make_dbABCD ::
  "int \<Rightarrow> pyfloat \<Rightarrow> (int \<rightharpoonup> sample list) \<Rightarrow> int list \<Rightarrow> py_exc + plot_lines" where
  "make_dbABCD dbno t paths dbnosA' = dbABCD_loop t dbno paths dbnosA' plot_lines_empty"

section \<open>Module bodies of the two \<open>setrun.py\<close> files\<close>

text \<open>
  Importing a module runs its top-level statements. The process environment
  \<open>os.environ\<close> is a map from names to values, the file system is the predicate
  \<open>os.path.isdir\<close>. The imports of \<open>os\<close> and \<open>numpy\<close> are taken to succeed.
\<close>

text \<open>\<open>os.environ[name]\<close>\<close>

definition environ_get :: "(string \<rightharpoonup> string) \<Rightarrow> string \<Rightarrow> py_exc + string" where
  "environ_get environ name = (case environ name of None \<Rightarrow> Inl (KeyError name) | Some v \<Rightarrow> Inr v)"

text \<open>\<open>os.path.join\<close> on POSIX paths: an absolute component discards what precedes it.\<close>

definition path_join2 :: "string \<Rightarrow> string \<Rightarrow> string" where
  "path_join2 path b =
     (if b \<noteq> [] \<and> hd b = CHR ''/'' then b
      else if path = [] \<or> last path = CHR ''/'' then path @ b
      else path @ ''/'' @ b)"

definition os_path_join :: "string \<Rightarrow> string list \<Rightarrow> string" where
  "os_path_join a ps = foldl path_join2 a ps"

text \<open>\<open>MonaiValley/setrun.py\<close>, lines 13 to 19: the globals the module defines.\<close>

record monai_globals =
  CLAW :: string
  scratch_dir :: string

definition monai_module :: "(string \<rightharpoonup> string) \<Rightarrow> py_exc + monai_globals" where
  "monai_module environ =
     (case environ_get environ ''CLAW'' of
        Inl e \<Rightarrow> Inl (PyException ''*** Must first set CLAW enviornment variable'')
      | Inr claw \<Rightarrow>
          Inr \<lparr>CLAW = claw,
               scratch_dir = os_path_join claw [''geoclaw'', ''scratch'', ''cascais_all'']\<rparr>)"

text \<open>\<open>problem2/from_japan1/setrun.py\<close>, lines 21 to 28.\<close>

record japan_globals =
  HOME :: string
  topodir :: string
  dtopodir :: string

definition japan_module :: "(string \<rightharpoonup> string) \<Rightarrow> (string \<Rightarrow> bool) \<Rightarrow> py_exc + japan_globals" where
  "japan_module environ isdir =
     bind_exc (environ_get environ ''HOME'') (\<lambda>home.
       let topodir' = home @ ''/git/tohoku2011/topo/'' in
       if \<not> isdir topodir' then Inl (OSError (''*** Missing topo directory: '' @ topodir'))
       else
         let dtopodir' = home @ ''/git/tohoku2011-paper1/sources/'' in
         if \<not> isdir dtopodir' then
           Inl (PyException (''*** Missing dtopo directory: '' @ dtopodir'))
         else Inr \<lparr>HOME = home, topodir = topodir', dtopodir = dtopodir'\<rparr>)"

section \<open>\<open>setgeo\<close> and \<open>setrun\<close> of \<open>problem2/from_japan1/setrun.py\<close>\<close>

text \<open>
  Python values as far as \<open>setgeo\<close> uses them. An object is the list of its attributes;
  assignment through a reference is written as an update of the enclosing value.
\<close>

datatype pyval =
    VNone
  | VBool bool
  | VInt int
  | VFloat pyfloat
  | VStr string
  | VList "pyval list"
  | VObj "(string \<times> pyval) list"

definition getattr :: "pyval \<Rightarrow> string \<Rightarrow> py_exc + pyval" where
  "getattr v name =
     (case v of
        VObj fs \<Rightarrow> (case map_of fs name of None \<Rightarrow> Inl (AttributeError name) | Some x \<Rightarrow> Inr x)
      | _ \<Rightarrow> Inl (AttributeError name))"

definition hasattr :: "pyval \<Rightarrow> string \<Rightarrow> bool" where
  "hasattr v name = (case getattr v name of Inl e \<Rightarrow> False | Inr x \<Rightarrow> True)"

fun assoc_update :: "string \<Rightarrow> pyval \<Rightarrow> (string \<times> pyval) list \<Rightarrow> (string \<times> pyval) list" where
  "assoc_update name x [] = [(name, x)]"
| "assoc_update name x ((n, y) # fs) =
     (if n = name then (name, x) # fs else (n, y) # assoc_update name x fs)"

definition setattr :: "pyval \<Rightarrow> string \<Rightarrow> pyval \<Rightarrow> py_exc + pyval" where
  "setattr v name x =
     (case v of VObj fs \<Rightarrow> Inr (VObj (assoc_update name x fs)) | _ \<Rightarrow> Inl (AttributeError name))"

text \<open>\<open>obj.a.b = x\<close> for an attribute path of one or more names.\<close>

fun set_path :: "pyval \<Rightarrow> string list \<Rightarrow> pyval \<Rightarrow> py_exc + pyval" where
  "set_path v [] x = Inr x"
| "set_path v [name] x = setattr v name x"
| "set_path v (name # names) x =
     bind_exc (getattr v name) (\<lambda>inner.
     bind_exc (set_path inner names x) (\<lambda>inner'. setattr v name inner'))"

fun get_path :: "pyval \<Rightarrow> string list \<Rightarrow> py_exc + pyval" where
  "get_path v [] = Inr v"
| "get_path v (name # names) = bind_exc (getattr v name) (\<lambda>inner. get_path inner names)"

text \<open>\<open>obj.a.b.append(x)\<close> on a list attribute.\<close>

definition append_path :: "pyval \<Rightarrow> string list \<Rightarrow> pyval \<Rightarrow> py_exc + pyval" where
  "append_path v names x =
     bind_exc (get_path v names) (\<lambda>l.
       case l of VList xs \<Rightarrow> set_path v names (VList (xs @ [x]))
               | _ \<Rightarrow> Inl (AttributeError ''append''))"

text \<open>Several attribute assignments in sequence.\<close>

fun set_paths :: "pyval \<Rightarrow> (string list \<times> pyval) list \<Rightarrow> py_exc + pyval" where
  "set_paths v [] = Inr v"
| "set_paths v ((names, x) # rest) = bind_exc (set_path v names x) (\<lambda>v'. set_paths v' rest)"

fun append_paths :: "pyval \<Rightarrow> string list \<Rightarrow> pyval list \<Rightarrow> py_exc + pyval" where
  "append_paths v names [] = Inr v"
| "append_paths v names (x # xs) =
     bind_exc (append_path v names x) (\<lambda>v'. append_paths v' names xs)"

text \<open>
  Reading a local variable of a function: a name that the function assigns somewhere is
  local in the whole body, and reading it before its first assignment raises
  UnboundLocalError.
\<close>

definition read_local :: "string \<Rightarrow> pyval option \<Rightarrow> py_exc + pyval" where
  "read_local name slot = (case slot of None \<Rightarrow> Inl (UnboundLocalError name) | Some v \<Rightarrow> Inr v)"

definition topofile :: "int \<Rightarrow> int \<Rightarrow> int \<Rightarrow> real \<Rightarrow> string \<Rightarrow> pyval" where
  "topofile ty l1 l2 t1 fname =
     VList [VInt ty, VInt l1, VInt l2, VFloat (Fin t1), VFloat (Fin 10000000000), VStr fname]"

text \<open>
  The statements of \<open>setgeo\<close> after its guard, with \<open>geo_data\<close> bound to
  \<open>rundata.geo_data\<close>.
\<close>

definition setgeo_settings :: "string \<Rightarrow> string \<Rightarrow> pyval \<Rightarrow> py_exc + pyval" where
  "setgeo_settings topodir' dtopodir' rundata =
     bind_exc (set_paths rundata
       [([''geo_data'', ''gravity''], VFloat (Fin (981 / 100))),
        ([''geo_data'', ''coordinate_system''], VInt 2),
        ([''geo_data'', ''earth_radius''], VFloat (Fin 6367500)),
        ([''geo_data'', ''coriolis_forcing''], VBool False),
        ([''geo_data'', ''sea_level''], VFloat (Fin 0)),
        ([''geo_data'', ''dry_tolerance''], VFloat (Fin (1 / 1000))),
        ([''geo_data'', ''friction_forcing''], VBool True),
        ([''geo_data'', ''manning_coefficient''], VFloat (Fin (35 / 1000))),
        ([''geo_data'', ''friction_depth''], VFloat (Fin 500)),
        ([''refinement_data'', ''variable_dt_refinement_ratios''], VBool True),
        ([''refinement_data'', ''wave_tolerance''], VFloat (Fin (2 / 100))),
        ([''refinement_data'', ''deep_depth''], VFloat (Fin 200)),
        ([''refinement_data'', ''max_level_deep''], VInt 4)]) (\<lambda>rundata.
     bind_exc (append_paths rundata [''topo_data'', ''topofiles'']
       [topofile 3 1 1 0 (topodir' @ ''etopo1min130E210E0N60N.asc''),
        topofile 3 1 1 0 (topodir' @ ''hawaii_6s.txt''),
        topofile 3 1 1 0 (topodir' @ ''hilo_3s.asc''),
        topofile 3 6 6 (75 / 10 * 3600) (topodir' @ ''hilo_port_1_3s.asc'')]) (\<lambda>rundata.
     bind_exc (set_paths rundata
       [([''dtopo_data'', ''dtopofiles''],
           VList [VList [VInt 1, VInt 3, VInt 3, VStr (dtopodir' @ ''UCSB3.txydz'')]]),
        ([''qinit_data'', ''qinit_type''], VInt 0),
        ([''qinit_data'', ''qinitfiles''], VList []),
        ([''fixed_grid_data'', ''fixedgrids''], VList [])]) (\<lambda>rundata.
     bind_exc (get_path rundata [''fgmax_data'', ''fgmax_files'']) (\<lambda>fgmax_files.
       Inr rundata))))"

text \<open>
  \<open>setgeo(rundata)\<close>. The function assigns \<open>geo_data\<close>, so the name is local and
  unbound on entry; the guard \<open>hasattr(geo_data, 'geo_data')\<close> reads it first. The two
  directory names are module globals.
\<close>

definition setgeo :: "string \<Rightarrow> string \<Rightarrow> pyval \<Rightarrow> py_exc + pyval" where
  "setgeo topodir' dtopodir' rundata =
     (let geo_data = None in
      bind_exc (read_local ''geo_data'' geo_data) (\<lambda>g.
        if hasattr g ''geo_data'' then
          bind_exc (getattr rundata ''geo_data'') (\<lambda>geo_data.
            setgeo_settings topodir' dtopodir' rundata)
        else Inl (AttributeError ''*** Error, this rundata has no geo_data attribute'')))"

text \<open>\<open>str.lower\<close> on ASCII letters.\<close>

definition lower_char :: "char \<Rightarrow> char" where
  "lower_char c =
     (if (65::nat) \<le> of_char c \<and> of_char c \<le> (90::nat) then char_of (of_char c + (32::nat)) else c)"

definition lower :: "string \<Rightarrow> string" where
  "lower s = map lower_char s"

text \<open>
  \<open>setrun(claw_pkg)\<close> up to and including its call of \<open>setgeo\<close>. The constructor
  \<open>data.ClawRunData\<close> belongs to the solver's library and the statements after the call
  (lines 65 to 412, the clawdata and amrdata settings) are a continuation; both are
  parameters.
\<close>

definition setrun ::
  "(string \<Rightarrow> int \<Rightarrow> py_exc + pyval) \<Rightarrow> (pyval \<Rightarrow> py_exc + pyval) \<Rightarrow>
   string \<Rightarrow> string \<Rightarrow> string \<Rightarrow> py_exc + pyval" where
  "setrun ClawRunData rest topodir' dtopodir' claw_pkg =
     (if lower claw_pkg \<noteq> ''geoclaw'' then
        Inl (AssertionError (''Expected claw_pkg = '' @ [CHR 0x27] @ ''geoclaw'' @ [CHR 0x27]))
      else
        let num_dim = 2 in
        bind_exc (ClawRunData claw_pkg num_dim) (\<lambda>rundata.
        bind_exc (setgeo topodir' dtopodir' rundata) (\<lambda>rundata.
          rest rundata)))"

section \<open>Velocity helpers of \<open>problem1_take2/setplot.py\<close>\<close>

text \<open>
  A patch of \<open>current_data\<close>: the arrays \<open>x\<close>, \<open>y\<close> and the components of \<open>q\<close> have one
  shape, so a patch is a list of rows of cells, each cell with its centre and its four
  components \<open>q[0]\<close> (depth), \<open>q[1]\<close>, \<open>q[2]\<close> (momenta) and \<open>q[3]\<close> (surface).
\<close>

record cell =
  c_x :: pyfloat
  c_y :: pyfloat
  q0 :: pyfloat
  q1 :: pyfloat
  q2 :: pyfloat
  q3 :: pyfloat

record current_data =
  level :: int
  dy :: pyfloat
  patch :: "cell list list"

definition dry_tol :: pyfloat where
  "dry_tol = Fin (1 / 1000)"

text \<open>
  \<open>where(cond, a, b)\<close> in one cell. numpy evaluates both arrays in every cell before it
  selects, so the quotient is computed (as an infinity or NaN) in dry cells too.
\<close>

definition np_where :: "bool \<Rightarrow> pyfloat \<Rightarrow> pyfloat \<Rightarrow> pyfloat" where
  "np_where cond a b = (if cond then a else b)"

text \<open>
  The two lines \<open>u = where(h>dry_tol, q[1,:]/h, 0.)\<close> and
  \<open>v = where(h>dry_tol, q[2,:]/h, 0.)\<close>, which every helper repeats, in one cell.
\<close>

definition where_u :: "cell \<Rightarrow> pyfloat" where
  "where_u c = (let h = q0 c in np_where (fl_gt h dry_tol) (fl_div (q1 c) h) (Fin 0))"

definition where_v :: "cell \<Rightarrow> pyfloat" where
  "where_v c = (let h = q0 c in np_where (fl_gt h dry_tol) (fl_div (q2 c) h) (Fin 0))"

text \<open>The helpers \<open>u\<close>, \<open>v\<close> and \<open>speed\<close>, passed as \<open>plot_var\<close>.\<close>

definition u :: "current_data \<Rightarrow> pyfloat list list" where
  "u cd = map (map where_u) (patch cd)"

definition v :: "current_data \<Rightarrow> pyfloat list list" where
  "v cd = map (map where_v) (patch cd)"









section \<open>The debris path integrator\<close>

text \<open>
  The script hands its dictionaries to \<open>P.make_debris_paths_substeps\<close> of the module
  \<open>fgout_particles\<close> (line 205), which is not among the source files. This section
  follows sections 3 and 4.1 of the specification instead.
\<close>

text \<open>
  Modelled from the spec: a FlowFrame, the snapshot of the flow at one time. The grid
  data (depth, velocities, surface, bathymetry, geometry) of the missing reader is kept
  abstract.
\<close>

record 'g flow_frame =
  ff_t :: pyfloat
  ff_grid :: 'g

text \<open>
  Modelled from the spec: what step 2a interpolates at a particle's position from the
  missing module: the depth (undefined off the grid) and the flow velocity.
\<close>

record flow =
  fl_h :: "pyfloat option"
  fl_uflow :: pyfloat
  fl_vflow :: pyfloat

text \<open>
  Modelled from the spec: a Particle of the missing integrator with its mutable state
  and the attributes the algorithm uses.
\<close>

record body =
  b_id :: int
  b_x :: pyfloat
  b_y :: pyfloat
  b_u :: pyfloat
  b_v :: pyfloat
  b_mass :: pyfloat
  b_drag_factor :: pyfloat
  b_grounding_depth :: pyfloat

text \<open>
  Modelled from the spec: the grounding test of the missing integrator (step 2b and the
  failure conditions): the depth is below the particle's threshold, or undefined.
\<close>

definition grounded :: "pyfloat option \<Rightarrow> pyfloat \<Rightarrow> bool" where
  "grounded h gd = (case h of None \<Rightarrow> True | Some h' \<Rightarrow> fl_lt h' gd)"

text \<open>
  Modelled from the spec: the drag force of the missing integrator (step 2b): a function
  of the relative velocity (flow minus particle), scaled by the drag factor, and zero
  for a grounded particle. The spec leaves the function open; it is the parameter
  \<open>drag_law\<close>.
\<close>

definition drag_force ::
  "(pyfloat \<times> pyfloat \<Rightarrow> pyfloat \<times> pyfloat) \<Rightarrow> flow \<Rightarrow> body \<Rightarrow> pyfloat \<times> pyfloat" where
  "drag_force drag_law fl b =
     (if grounded (fl_h fl) (b_grounding_depth b) then (Fin 0, Fin 0)
      else
        let (rx, ry) = drag_law (fl_sub (fl_uflow fl) (b_u b), fl_sub (fl_vflow fl) (b_v b))
        in (fl_mul (b_drag_factor b) rx, fl_mul (b_drag_factor b) ry))"

text \<open>
  Modelled from the spec: the force of one tether in the missing integrator (step 2c):
  stiffness times (distance minus rest length), along the line to the other particle.
  A pair has a tether when its stiffness is positive.
\<close>

definition tether_pull ::
  "(int \<Rightarrow> int \<Rightarrow> pyfloat \<times> pyfloat) \<Rightarrow> body \<Rightarrow> body \<Rightarrow> pyfloat \<times> pyfloat" where
  "tether_pull tether_fn b other =
     (let (Dtether, Ktether) = tether_fn (b_id b) (b_id other) in
      if b_id other = b_id b \<or> \<not> fl_gt Ktether (Fin 0) then (Fin 0, Fin 0)
      else
        let ddx = fl_sub (b_x other) (b_x b);
            ddy = fl_sub (b_y other) (b_y b);
            dist = fl_sqrt (fl_add (fl_mul ddx ddx) (fl_mul ddy ddy));
            pull = fl_mul Ktether (fl_sub dist Dtether)
        in (fl_mul pull (fl_div ddx dist), fl_mul pull (fl_div ddy dist)))"

text \<open>
  Modelled from the spec: the tether forces of the missing integrator summed over all
  tethered neighbours (step 2c).
\<close>

definition tether_force ::
  "(int \<Rightarrow> int \<Rightarrow> pyfloat \<times> pyfloat) \<Rightarrow> body list \<Rightarrow> body \<Rightarrow> pyfloat \<times> pyfloat" where
  "tether_force tether_fn bodies b =
     foldl (\<lambda>(fx, fy) other. let (px, py) = tether_pull tether_fn b other
                             in (fl_add fx px, fl_add fy py))
       (Fin 0, Fin 0) bodies"

text \<open>
  Modelled from the spec: one sub-step of the missing integrator for one particle
  (steps 2a to 2d): forward Euler, the velocity first, then the position with the new
  velocity.
\<close>

definition substep_body ::
  "(pyfloat \<Rightarrow> pyfloat \<Rightarrow> flow) \<Rightarrow> (pyfloat \<times> pyfloat \<Rightarrow> pyfloat \<times> pyfloat) \<Rightarrow>
   (int \<Rightarrow> int \<Rightarrow> pyfloat \<times> pyfloat) \<Rightarrow> pyfloat \<Rightarrow> body list \<Rightarrow> body \<Rightarrow> body" where
  "substep_body flow_here drag_law tether_fn dt bodies b =
     (let fl = flow_here (b_x b) (b_y b);
          (dfx, dfy) = drag_force drag_law fl b;
          (tfx, tfy) = tether_force tether_fn bodies b;
          ax = fl_div (fl_add dfx tfx) (b_mass b);
          ay = fl_div (fl_add dfy tfy) (b_mass b);
          un = fl_add (b_u b) (fl_mul ax dt);
          vn = fl_add (b_v b) (fl_mul ay dt)
      in b\<lparr>b_u := un, b_v := vn,
           b_x := fl_add (b_x b) (fl_mul un dt),
           b_y := fl_add (b_y b) (fl_mul vn dt)\<rparr>)"

text \<open>
  Modelled from the spec: the \<open>n\<close> equal sub-steps of the missing integrator over one
  frame interval (steps 1 and 2). How the two bracketing frames are combined in time is
  open in the spec; \<open>flow_at\<close> receives both frames and the sub-step number.
\<close>

definition substeps ::
  "('g flow_frame \<Rightarrow> 'g flow_frame \<Rightarrow> nat \<Rightarrow> nat \<Rightarrow> pyfloat \<Rightarrow> pyfloat \<Rightarrow> flow) \<Rightarrow>
   (pyfloat \<times> pyfloat \<Rightarrow> pyfloat \<times> pyfloat) \<Rightarrow> (int \<Rightarrow> int \<Rightarrow> pyfloat \<times> pyfloat) \<Rightarrow>
   nat \<Rightarrow> 'g flow_frame \<Rightarrow> 'g flow_frame \<Rightarrow> body list \<Rightarrow> body list" where
  "substeps flow_at drag_law tether_fn n fk fk1 bodies =
     (let dt = fl_div (fl_sub (ff_t fk1) (ff_t fk)) (Fin (real n))
      in foldl (\<lambda>bs i. map (substep_body (flow_at fk fk1 n i) drag_law tether_fn dt bs) bs)
           bodies [0..<n])"

text \<open>
  Modelled from the spec: the particle that the missing integrator reads from the
  script's dictionaries: the state in the last row of its history and its attributes.
\<close>

definition current_body ::
  "(int \<rightharpoonup> sample list) \<Rightarrow> (int \<rightharpoonup> pyfloat) \<Rightarrow> (int \<rightharpoonup> pyfloat) \<Rightarrow> (int \<rightharpoonup> pyfloat) \<Rightarrow>
   int \<Rightarrow> py_exc + body" where
  "current_body paths drag_factor' grounding_depth' mass' dbno =
     bind_exc (getitem paths dbno) (\<lambda>db.
       if db = [] then Inl IndexError
       else
         bind_exc (getitem drag_factor' dbno) (\<lambda>df.
         bind_exc (getitem grounding_depth' dbno) (\<lambda>gd.
         bind_exc (getitem mass' dbno) (\<lambda>m.
           Inr \<lparr>b_id = dbno, b_x = s_x (last db), b_y = s_y (last db),
                b_u = s_u (last db), b_v = s_v (last db),
                b_mass = m, b_drag_factor = df, b_grounding_depth = gd\<rparr>))))"

text \<open>Modelled from the spec: the particles of all ids, read by the missing integrator.\<close>

fun current_bodies ::
  "(int \<rightharpoonup> sample list) \<Rightarrow> (int \<rightharpoonup> pyfloat) \<Rightarrow> (int \<rightharpoonup> pyfloat) \<Rightarrow> (int \<rightharpoonup> pyfloat) \<Rightarrow>
   int list \<Rightarrow> py_exc + body list" where
  "current_bodies paths drag_factor' grounding_depth' mass' [] = Inr []"
| "current_bodies paths drag_factor' grounding_depth' mass' (dbno # ds) =
     bind_exc (current_body paths drag_factor' grounding_depth' mass' dbno) (\<lambda>b.
     bind_exc (current_bodies paths drag_factor' grounding_depth' mass' ds) (\<lambda>bs.
       Inr (b # bs)))"

text \<open>
  Modelled from the spec: step 3 of the missing integrator: at the end of the interval
  the sample \<open>(t, x, y, u, v)\<close> is appended to each particle's history.
\<close>

fun append_samples :: "pyfloat \<Rightarrow> body list \<Rightarrow> (int \<rightharpoonup> sample list) \<Rightarrow> (int \<rightharpoonup> sample list)" where
  "append_samples t [] paths = paths"
| "append_samples t (b # bs) paths =
     append_samples t bs
       (paths(b_id b \<mapsto> (case paths (b_id b) of None \<Rightarrow> [] | Some db \<Rightarrow> db) @
          [\<lparr>s_t = t, s_x = b_x b, s_y = b_y b, s_u = b_u b, s_v = b_v b\<rparr>]))"

text \<open>
  Modelled from the spec: one frame interval of the missing integrator, between the
  frames \<open>fk\<close> and \<open>fk1\<close>.
\<close>

definition frame_interval ::
  "('g flow_frame \<Rightarrow> 'g flow_frame \<Rightarrow> nat \<Rightarrow> nat \<Rightarrow> pyfloat \<Rightarrow> pyfloat \<Rightarrow> flow) \<Rightarrow>
   (pyfloat \<times> pyfloat \<Rightarrow> pyfloat \<times> pyfloat) \<Rightarrow> int list \<Rightarrow>
   (int \<rightharpoonup> pyfloat) \<Rightarrow> (int \<rightharpoonup> pyfloat) \<Rightarrow> (int \<rightharpoonup> pyfloat) \<Rightarrow>
   (int \<Rightarrow> int \<Rightarrow> pyfloat \<times> pyfloat) \<Rightarrow> nat \<Rightarrow>
   'g flow_frame \<Rightarrow> 'g flow_frame \<Rightarrow> (int \<rightharpoonup> sample list) \<Rightarrow> py_exc + (int \<rightharpoonup> sample list)" where
  "frame_interval flow_at drag_law dbnos' drag_factor' grounding_depth' mass' tether_fn n fk fk1 paths =
     bind_exc (current_bodies paths drag_factor' grounding_depth' mass' dbnos') (\<lambda>bodies.
       Inr (append_samples (ff_t fk1)
              (substeps flow_at drag_law tether_fn n fk fk1 bodies) paths))"

text \<open>Modelled from the spec: the missing integrator's loop over consecutive frames.\<close>

fun frame_intervals ::
  "('g flow_frame \<Rightarrow> 'g flow_frame \<Rightarrow> nat \<Rightarrow> nat \<Rightarrow> pyfloat \<Rightarrow> pyfloat \<Rightarrow> flow) \<Rightarrow>
   (pyfloat \<times> pyfloat \<Rightarrow> pyfloat \<times> pyfloat) \<Rightarrow> int list \<Rightarrow>
   (int \<rightharpoonup> pyfloat) \<Rightarrow> (int \<rightharpoonup> pyfloat) \<Rightarrow> (int \<rightharpoonup> pyfloat) \<Rightarrow>
   (int \<Rightarrow> int \<Rightarrow> pyfloat \<times> pyfloat) \<Rightarrow> nat \<Rightarrow>
   'g flow_frame \<Rightarrow> 'g flow_frame list \<Rightarrow> (int \<rightharpoonup> sample list) \<Rightarrow>
   py_exc + (int \<rightharpoonup> sample list)" where
  "frame_intervals flow_at drag_law dbnos' drag_factor' grounding_depth' mass' tether_fn n fk [] paths =
     Inr paths"
| "frame_intervals flow_at drag_law dbnos' drag_factor' grounding_depth' mass' tether_fn n fk (fk1 # fs) paths =
     bind_exc (frame_interval flow_at drag_law dbnos' drag_factor' grounding_depth' mass' tether_fn n
                 fk fk1 paths)
       (frame_intervals flow_at drag_law dbnos' drag_factor' grounding_depth' mass' tether_fn n fk1 fs)"

text \<open>
  Modelled from the spec: \<open>make_debris_paths_substeps\<close> of the missing module, with the
  arguments of the call at line 205 (the frames stand for \<open>fgout_grid\<close> and
  \<open>fgframes\<close>; \<open>dradius\<close> and \<open>Kspring\<close> appear in no step of the spec's algorithm).
  The first frame is the one the histories start at.
\<close>

definition make_debris_paths_substeps ::
  "('g flow_frame \<Rightarrow> 'g flow_frame \<Rightarrow> nat \<Rightarrow> nat \<Rightarrow> pyfloat \<Rightarrow> pyfloat \<Rightarrow> flow) \<Rightarrow>
   (pyfloat \<times> pyfloat \<Rightarrow> pyfloat \<times> pyfloat) \<Rightarrow>
   'g flow_frame list \<Rightarrow> (int \<rightharpoonup> sample list) \<Rightarrow> int list \<Rightarrow>
   (int \<rightharpoonup> pyfloat) \<Rightarrow> (int \<rightharpoonup> pyfloat) \<Rightarrow> (int \<rightharpoonup> pyfloat) \<Rightarrow>
   (int \<Rightarrow> int \<Rightarrow> pyfloat \<times> pyfloat) \<Rightarrow> nat \<Rightarrow> py_exc + (int \<rightharpoonup> sample list)" where
  "make_debris_paths_substeps flow_at drag_law frames paths dbnos' drag_factor' grounding_depth'
       mass' tether_fn nsubsteps =
     (case frames of
        [] \<Rightarrow> Inr paths
      | f0 # fs \<Rightarrow>
          frame_intervals flow_at drag_law dbnos' drag_factor' grounding_depth' mass' tether_fn
            nsubsteps f0 fs paths)"

section \<open>Predicates used in the statements\<close>

text \<open>
  The five dictionaries have the ids of \<open>dbnos\<close> as their keys and hold the common
  values (the state before the masses are adjusted).
\<close>

definition dicts_ok :: "particles \<Rightarrow> bool" where
  "dicts_ok st \<longleftrightarrow>
     dom (debris_paths st) = set (dbnos st) \<and>
     dom (grounding_depth st) = set (dbnos st) \<and>
     dom (drag_factor st) = set (dbnos st) \<and>
     dom (mass st) = set (dbnos st) \<and>
     dom (dradius st) = set (dbnos st) \<and>
     (\<forall>d \<in> set (dbnos st).
        grounding_depth st d = Some grounding_depth_common \<and>
        drag_factor st d = Some drag_factor_common \<and>
        mass st d = Some mass_common \<and>
        dradius st d = Some dradius_common)"

text \<open>Every listed particle has a history of exactly one row, at time \<open>t0\<close>.\<close>

definition starts_at :: "pyfloat \<Rightarrow> particles \<Rightarrow> bool" where
  "starts_at t0 st \<longleftrightarrow> (\<forall>d \<in> set (dbnos st). \<exists>r. debris_paths st d = Some [r] \<and> s_t r = t0)"

text \<open>Every listed particle has a nonempty history with the times \<open>ts\<close>.\<close>

definition histories_at :: "int list \<Rightarrow> (int \<rightharpoonup> sample list) \<Rightarrow> pyfloat list \<Rightarrow> bool" where
  "histories_at ds paths ts \<longleftrightarrow>
     (\<forall>d \<in> set ds. \<exists>db. paths d = Some db \<and> db \<noteq> [] \<and> map s_t db = ts)"


section \<open>Auxiliary facts\<close>

lemma bind_exc_Inr [simp]: "bind_exc (Inr a) f = f a"
  by (simp add: bind_exc_def)

lemma bind_exc_Inl [simp]: "bind_exc (Inl e) f = Inl e"
  by (simp add: bind_exc_def)

lemma getitem_Some [simp]: "d k = Some x \<Longrightarrow> getitem d k = Inr x"
  by (simp add: getitem_def)


section \<open>Tethers\<close>

text \<open>
  C1. For all integer particle numbers, \<open>tether\<close> returns the side length 0.6 with
  stiffness 50 exactly when the numbers differ by 1000 or 3000, the diagonal length
  0.6 * sqrt 2 with stiffness 50 exactly when they differ by 2000, and NaN with
  stiffness 0 exactly for every other pair.
\<close>

theorem tether_lookup:
  "(tether i j = (Fin (6 / 10), Fin 50) \<longleftrightarrow> \<bar>i - j\<bar> = 1000 \<or> \<bar>i - j\<bar> = 3000) \<and>
   (tether i j = (Fin (6 / 10 * sqrt 2), Fin 50) \<longleftrightarrow> \<bar>i - j\<bar> = 2000) \<and>
   (tether i j = (NaN, Fin 0) \<longleftrightarrow> \<bar>i - j\<bar> \<noteq> 1000 \<and> \<bar>i - j\<bar> \<noteq> 2000 \<and> \<bar>i - j\<bar> \<noteq> 3000)"
  by (auto simp: tether_def length_py_def)

theorem tether_lookup_witness:
  "tether 1 1001 = (Fin (6 / 10), Fin 50) \<and> tether 3001 1 = (Fin (6 / 10), Fin 50) \<and>
   tether 0 2000 = (Fin (6 / 10 * sqrt 2), Fin 50) \<and> tether 0 1 = (NaN, Fin 0)"
  using tether_lookup [of 1 1001] tether_lookup [of 3001 1] tether_lookup [of 0 2000]
    tether_lookup [of 0 1]
  by simp

lemma tether_pull_untethered:
  "\<bar>b_id b - b_id other\<bar> \<notin> {1000, 2000, 3000} \<Longrightarrow>
     tether_pull tether b other = (Fin 0, Fin 0)"
  by (simp add: tether_pull_def tether_def fl_gt_def)

lemma foldl_no_pull:
  assumes "\<forall>other \<in> set bodies. tether_pull tether_fn b other = (Fin 0, Fin 0)"
  shows "foldl (\<lambda>(fx, fy) other. let (px, py) = tether_pull tether_fn b other
                                  in (fl_add fx px, fl_add fy py))
           (Fin 0, Fin 0) bodies = (Fin 0, Fin 0)"
  using assms by (induction bodies) simp_all

lemma tether_force_untethered:
  assumes "\<forall>other \<in> set bodies. \<bar>b_id b - b_id other\<bar> \<notin> {1000, 2000, 3000}"
  shows "tether_force tether bodies b = (Fin 0, Fin 0)"
  unfolding tether_force_def
  by (rule foldl_no_pull) (use assms in \<open>simp add: tether_pull_untethered\<close>)

text \<open>
  C2. The tether relation is symmetric: \<open>tether i j\<close> and \<open>tether j i\<close> are the same
  pair. Where no tether is defined (the numbers differ by none of 1000, 2000, 3000) the
  stiffness is 0 and no constraint force arises: in the integrator as the specification
  describes it, the pull between two particles with these numbers is exactly zero in
  both directions, whatever their positions, and a particle none of whose neighbours is
  tethered to it has the total tether force zero. The product of the stiffness 0 with
  the NaN rest length would be NaN; the force is zero because the integrator skips a
  pair without a tether.
\<close>

theorem tether_symmetric:
  "tether i j = tether j i \<and>
   (\<bar>i - j\<bar> \<notin> {1000, 2000, 3000} \<longrightarrow>
      snd (tether i j) = Fin 0 \<and>
      (\<forall>b other. b_id b = i \<and> b_id other = j \<longrightarrow>
         tether_pull tether b other = (Fin 0, Fin 0) \<and>
         tether_pull tether other b = (Fin 0, Fin 0))) \<and>
   (\<forall>bodies b. (\<forall>other \<in> set bodies. \<bar>b_id b - b_id other\<bar> \<notin> {1000, 2000, 3000}) \<longrightarrow>
      tether_force tether bodies b = (Fin 0, Fin 0))"
proof (intro conjI impI allI)
  show "tether i j = tether j i"
    by (simp add: tether_def abs_minus_commute)
next
  assume "\<bar>i - j\<bar> \<notin> {1000, 2000, 3000}"
  then show "snd (tether i j) = Fin 0"
    by (simp add: tether_def)
next
  fix b other :: body
  assume far: "\<bar>i - j\<bar> \<notin> {1000, 2000, 3000}" and ids: "b_id b = i \<and> b_id other = j"
  from far ids have "\<bar>b_id b - b_id other\<bar> \<notin> {1000, 2000, 3000}" by simp
  then show "tether_pull tether b other = (Fin 0, Fin 0)"
    by (rule tether_pull_untethered)
  from far ids have "\<bar>b_id other - b_id b\<bar> \<notin> {1000, 2000, 3000}"
    by (simp add: abs_minus_commute)
  then show "tether_pull tether other b = (Fin 0, Fin 0)"
    by (rule tether_pull_untethered)
next
  fix bodies :: "body list" and b :: body
  assume "\<forall>other \<in> set bodies. \<bar>b_id b - b_id other\<bar> \<notin> {1000, 2000, 3000}"
  then show "tether_force tether bodies b = (Fin 0, Fin 0)"
    by (rule tether_force_untethered)
qed

text \<open>
  The particles 0 and 1001 of the script, a side length apart: no tether, stiffness 0,
  no pull on either, and no tether force on particle 0 from particle 1001 alone.
\<close>

theorem tether_symmetric_witness:
  "\<bar>0 - 1001\<bar> \<notin> {1000, 2000, 3000 :: int} \<and> snd (tether 0 1001) = Fin 0 \<and>
   tether 0 1001 = tether 1001 0 \<and>
   tether_pull tether
     \<lparr>b_id = 0, b_x = Fin 0, b_y = Fin 0, b_u = Fin 0, b_v = Fin 0, b_mass = Fin 1,
      b_drag_factor = Fin 1, b_grounding_depth = Fin 0\<rparr>
     \<lparr>b_id = 1001, b_x = Fin 0, b_y = Fin (6 / 10), b_u = Fin 0, b_v = Fin 0, b_mass = Fin 1,
      b_drag_factor = Fin 1, b_grounding_depth = Fin 0\<rparr> = (Fin 0, Fin 0) \<and>
   tether_force tether
     [\<lparr>b_id = 1001, b_x = Fin 0, b_y = Fin (6 / 10), b_u = Fin 0, b_v = Fin 0, b_mass = Fin 1,
       b_drag_factor = Fin 1, b_grounding_depth = Fin 0\<rparr>]
     \<lparr>b_id = 0, b_x = Fin 0, b_y = Fin 0, b_u = Fin 0, b_v = Fin 0, b_mass = Fin 1,
      b_drag_factor = Fin 1, b_grounding_depth = Fin 0\<rparr> = (Fin 0, Fin 0)"
proof -
  define b0 where "b0 = \<lparr>b_id = 0, b_x = Fin 0, b_y = Fin 0, b_u = Fin 0, b_v = Fin 0,
      b_mass = Fin 1, b_drag_factor = Fin 1, b_grounding_depth = Fin 0\<rparr>"
  define b1 where "b1 = \<lparr>b_id = 1001, b_x = Fin 0, b_y = Fin (6 / 10), b_u = Fin 0,
      b_v = Fin 0, b_mass = Fin 1, b_drag_factor = Fin 1, b_grounding_depth = Fin 0\<rparr>"
  have far: "\<bar>0 - 1001\<bar> \<notin> {1000, 2000, 3000 :: int}" by simp
  have ids: "b_id b0 = 0 \<and> b_id b1 = 1001" by (simp add: b0_def b1_def)
  have nb: "\<forall>other \<in> set [b1]. \<bar>b_id b0 - b_id other\<bar> \<notin> {1000, 2000, 3000}"
    by (simp add: b0_def b1_def)
  note sym = tether_symmetric [of 0 1001]
  from sym have s1: "tether 0 1001 = tether 1001 0" by (rule conjunct1)
  from sym far have s2: "snd (tether 0 1001) = Fin 0" by blast
  from sym far ids have s3: "tether_pull tether b0 b1 = (Fin 0, Fin 0)" by blast
  from sym nb have s4: "tether_force tether [b1] b0 = (Fin 0, Fin 0)" by blast
  from far s2 s1 s3 s4 show ?thesis unfolding b0_def b1_def by (intro conjI)
qed

section \<open>Particle initialisation\<close>

lemma dicts_ok_empty: "dicts_ok particles_empty"
  by (simp add: dicts_ok_def particles_empty_def)

lemma dicts_ok_add_particle: "dicts_ok st \<Longrightarrow> dicts_ok (add_particle t0 d x y st)"
  by (auto simp: dicts_ok_def add_particle_def)

lemma dicts_ok_dbnosA: "dicts_ok st \<Longrightarrow> dicts_ok (st\<lparr>dbnosA := l\<rparr>)"
  by (simp add: dicts_ok_def)

lemma dicts_ok_add_square: "dicts_ok st \<Longrightarrow> dicts_ok (add_square t0 k x y st)"
  by (simp add: add_square_def Let_def dicts_ok_add_particle dicts_ok_dbnosA)

lemma dicts_ok_init_loop: "dicts_ok st \<Longrightarrow> dicts_ok (init_loop t0 k pts st)"
  by (induction t0 k pts st rule: init_loop.induct) (simp_all add: dicts_ok_add_square)

lemma mass_loop_apply:
  "mass_loop ds m d = (if d \<in> set ds \<and> d mod 1000 = 0 then Some (Fin 1000000) else m d)"
  by (induction ds arbitrary: m) auto

lemma dom_mass_loop: "set ds \<subseteq> dom m \<Longrightarrow> dom (mass_loop ds m) = dom m"
  by (auto simp: mass_loop_apply dom_def split: if_splits)

lemma init_particles_unfold:
  "init_particles t0 pts =
     (init_loop t0 0 pts particles_empty)
       \<lparr>mass := mass_loop (dbnos (init_loop t0 0 pts particles_empty))
                  (mass (init_loop t0 0 pts particles_empty))\<rparr>"
  by (simp add: init_particles_def Let_def)

lemma script_dbnos:
  "dbnos (init_particles t0 script_points) = [0, 1000, 2000, 3000, 1, 1001, 2001, 3001]"
  by (simp add: init_particles_def script_points_def grid_points_def add_square_def
      add_particle_def Let_def particles_empty_def)

lemma script_dbnosA: "dbnosA (init_particles t0 script_points) = [0, 1]"
  by (simp add: init_particles_def script_points_def grid_points_def add_square_def
      add_particle_def Let_def particles_empty_def)

text \<open>
  C10. After the initialisation the five dictionaries have exactly the ids of \<open>dbnos\<close>
  as keys; the mass is 1e6 for every id divisible by 1000 and 1.0 for every other id;
  grounding depth, drag factor and radius are 0.0, 1.0 and 0.2 for every id. This holds
  for any list of starting points, the script's among them.
\<close>

theorem init_dictionaries:
  "let st = init_particles t0 pts in
     dom (debris_paths st) = set (dbnos st) \<and>
     dom (grounding_depth st) = set (dbnos st) \<and>
     dom (drag_factor st) = set (dbnos st) \<and>
     dom (mass st) = set (dbnos st) \<and>
     dom (dradius st) = set (dbnos st) \<and>
     (\<forall>d \<in> set (dbnos st).
        mass st d = Some (if d mod 1000 = 0 then Fin 1000000 else Fin 1) \<and>
        grounding_depth st d = Some (Fin 0) \<and>
        drag_factor st d = Some (Fin 1) \<and>
        dradius st d = Some (Fin (2 / 10)))"
proof -
  define st0 where "st0 = init_loop t0 0 pts particles_empty"
  have ok: "dicts_ok st0"
    unfolding st0_def by (rule dicts_ok_init_loop [OF dicts_ok_empty])
  have st: "init_particles t0 pts = st0\<lparr>mass := mass_loop (dbnos st0) (mass st0)\<rparr>"
    by (simp add: init_particles_unfold st0_def)
  from ok have sub: "set (dbnos st0) \<subseteq> dom (mass st0)"
    by (simp add: dicts_ok_def)
  show ?thesis
    using ok dom_mass_loop [OF sub]
    by (simp add: st Let_def dicts_ok_def mass_loop_apply grounding_depth_common_def
        drag_factor_common_def mass_common_def dradius_common_def)
qed

theorem init_dictionaries_witness:
  "dbnos (init_particles (Fin 0) script_points) = [0, 1000, 2000, 3000, 1, 1001, 2001, 3001] \<and>
   dom (mass (init_particles (Fin 0) script_points)) = {0, 1000, 2000, 3000, 1, 1001, 2001, 3001} \<and>
   mass (init_particles (Fin 0) script_points) 2000 = Some (Fin 1000000) \<and>
   mass (init_particles (Fin 0) script_points) 2001 = Some (Fin 1) \<and>
   dradius (init_particles (Fin 0) script_points) 2001 = Some (Fin (2 / 10))"
  using init_dictionaries [of "Fin 0" script_points]
  by (simp add: Let_def script_dbnos)

section \<open>\<open>make_dbABCD\<close>\<close>

lemma np_where_idx_none:
  assumes "\<And>j. j < length cond \<Longrightarrow> \<not> cond ! j"
  shows "np_where_idx cond = []"
  using assms by (simp add: np_where_idx_def filter_empty_conv)

lemma find_row_missing:
  assumes "\<forall>s \<in> set dbA. \<not> sample_near t s"
  shows "find_row t dbno dbA = (- 1, [Did_not_find_path dbno t])"
proof -
  have "np_where_idx (map (sample_near t) dbA) = []"
  proof (rule np_where_idx_none)
    fix j assume "j < length (map (sample_near t) dbA)"
    then have "dbA ! j \<in> set dbA" "map (sample_near t) dbA ! j = sample_near t (dbA ! j)"
      by simp_all
    with assms show "\<not> map (sample_near t) dbA ! j" by simp
  qed
  then show ?thesis by (simp add: find_row_def np_max_def)
qed

lemma dbABCD_body_missing:
  assumes "paths g = Some dbA" "paths (g + 1000) = Some dbB"
    "paths (g + 2000) = Some dbC" "paths (g + 3000) = Some dbD"
    and "\<forall>s \<in> set dbA. \<not> sample_near t s"
  shows "dbABCD_body t dbno paths g acc =
           Inr (acc\<lparr>printed := printed acc @ [Did_not_find_path dbno t]\<rparr>)"
  using assms(1-4) by (simp add: dbABCD_body_def Let_def find_row_missing [OF assms(5)])

lemma dbABCD_loop_append:
  "dbABCD_loop t dbno paths (pre @ rest) acc =
     bind_exc (dbABCD_loop t dbno paths pre acc) (dbABCD_loop t dbno paths rest)"
proof (induction pre arbitrary: acc)
  case Nil
  then show ?case by simp
next
  case (Cons a pre)
  then show ?case by (cases "dbABCD_body t dbno paths a acc") simp_all
qed

text \<open>
  C3. Take a group \<open>g\<close> whose four histories exist and whose own history has no row
  within 1e-6 of the query time \<open>t\<close>. Then the search falls back to the index -1 and
  prints one diagnostic; the pass for this group does not raise and leaves both
  coordinate arrays as they were; and a call of \<open>make_dbABCD\<close> on a list that contains
  \<open>g\<close> at any place goes on with the groups after \<open>g\<close>, from the arrays built before
  \<open>g\<close>.
\<close>

theorem make_dbABCD_missing_sample:
  assumes "paths g = Some dbA" "paths (g + 1000) = Some dbB"
    "paths (g + 2000) = Some dbC" "paths (g + 3000) = Some dbD"
    and "\<forall>s \<in> set dbA. \<not> sample_near t s"
  shows "find_row t dbno dbA = (- 1, [Did_not_find_path dbno t]) \<and>
    dbABCD_body t dbno paths g acc =
      Inr (acc\<lparr>printed := printed acc @ [Did_not_find_path dbno t]\<rparr>) \<and>
    make_dbABCD dbno t paths (pre @ g # rest) =
      bind_exc (make_dbABCD dbno t paths pre) (\<lambda>acc'.
        dbABCD_loop t dbno paths rest
          (acc'\<lparr>printed := printed acc' @ [Did_not_find_path dbno t]\<rparr>))"
proof -
  note body = dbABCD_body_missing [OF assms]
  have "make_dbABCD dbno t paths (pre @ g # rest) =
      bind_exc (make_dbABCD dbno t paths pre) (\<lambda>acc'.
        dbABCD_loop t dbno paths rest
          (acc'\<lparr>printed := printed acc' @ [Did_not_find_path dbno t]\<rparr>))"
    unfolding make_dbABCD_def dbABCD_loop_append
    by (cases "dbABCD_loop t dbno paths pre plot_lines_empty") (simp_all add: body)
  with body find_row_missing [OF assms(5)] show ?thesis by simp
qed

text \<open>
  The query time 5 against the initial histories of the script (one row each, at time
  0): both groups are reported, with the leftover number 3001, and the arrays are empty.
\<close>

theorem make_dbABCD_missing_sample_witness:
  "make_dbABCD 3001 (Fin 5) (debris_paths (init_particles (Fin 0) script_points)) [0, 1] =
     Inr \<lparr>xdAB = [], ydAB = [],
          printed = [Did_not_find_path 3001 (Fin 5), Did_not_find_path 3001 (Fin 5)]\<rparr>"
proof -
  let ?paths = "debris_paths (init_particles (Fin 0) script_points)"
  let ?r = "\<lambda>x y. [\<lparr>s_t = Fin 0, s_x = x, s_y = y, s_u = u0, s_v = v0\<rparr>]"
  have p0: "?paths 0 = Some (?r (Fin (3554 / 100)) (Fin (122 / 100)))"
    "?paths (0 + 1000) = Some (?r (Fin (3554 / 100)) (fl_add (Fin (122 / 100)) length_py))"
    "?paths (0 + 2000) =
       Some (?r (fl_add (Fin (3554 / 100)) length_py) (fl_add (Fin (122 / 100)) length_py))"
    "?paths (0 + 3000) = Some (?r (fl_add (Fin (3554 / 100)) length_py) (Fin (122 / 100)))"
    by (simp_all add: init_particles_def script_points_def grid_points_def add_square_def
        add_particle_def Let_def particles_empty_def)
  have p1: "?paths 1 = Some (?r (Fin (3434 / 100)) (Fin (82 / 100)))"
    "?paths (1 + 1000) = Some (?r (Fin (3434 / 100)) (fl_add (Fin (82 / 100)) length_py))"
    "?paths (1 + 2000) =
       Some (?r (fl_add (Fin (3434 / 100)) length_py) (fl_add (Fin (82 / 100)) length_py))"
    "?paths (1 + 3000) = Some (?r (fl_add (Fin (3434 / 100)) length_py) (Fin (82 / 100)))"
    by (simp_all add: init_particles_def script_points_def grid_points_def add_square_def
        add_particle_def Let_def particles_empty_def)
  have far0: "\<forall>s \<in> set (?r (Fin (3554 / 100)) (Fin (122 / 100))). \<not> sample_near (Fin 5) s"
    by (simp add: sample_near_def fl_sub_def)
  have far1: "\<forall>s \<in> set (?r (Fin (3434 / 100)) (Fin (82 / 100))). \<not> sample_near (Fin 5) s"
    by (simp add: sample_near_def fl_sub_def)
  have one: "make_dbABCD 3001 (Fin 5) ?paths [0] =
      Inr \<lparr>xdAB = [], ydAB = [], printed = [Did_not_find_path 3001 (Fin 5)]\<rparr>"
    using make_dbABCD_missing_sample [OF p0 far0, of 3001 plot_lines_empty "[]" "[]"]
    by (simp add: make_dbABCD_def plot_lines_empty_def)
  have "make_dbABCD 3001 (Fin 5) ?paths ([0] @ 1 # []) =
      bind_exc (make_dbABCD 3001 (Fin 5) ?paths [0]) (\<lambda>acc'.
        dbABCD_loop (Fin 5) 3001 ?paths []
          (acc'\<lparr>printed := printed acc' @ [Did_not_find_path 3001 (Fin 5)]\<rparr>))"
    using make_dbABCD_missing_sample [OF p1 far1, of 3001 plot_lines_empty "[0]" "[]"]
    by blast
  with one show ?thesis by simp
qed

section \<open>The integrator: drag of a grounded particle\<close>

text \<open>
  C6 (against the integrator as the specification describes it). For a particle whose
  interpolated depth is below its grounding depth, the drag force of a sub-step is
  exactly zero, whatever the flow velocity and the drag law; the sub-step is the same as
  one taken in any other flow velocity.
\<close>

theorem grounded_no_drag:
  assumes "fl_h (flow_here (b_x b) (b_y b)) = Some h" "fl_lt h (b_grounding_depth b)"
  shows "drag_force drag_law (flow_here (b_x b) (b_y b)) b = (Fin 0, Fin 0) \<and>
    substep_body flow_here drag_law tether_fn dt bodies b =
      substep_body (\<lambda>x y. \<lparr>fl_h = Some h, fl_uflow = uf, fl_vflow = vf\<rparr>) drag_law'
        tether_fn dt bodies b"
  using assms by (simp add: substep_body_def drag_force_def grounded_def)

theorem grounded_no_drag_witness:
  "drag_force (\<lambda>r. r)
     \<lparr>fl_h = Some (Fin (1 / 100)), fl_uflow = Fin 3, fl_vflow = Fin 4\<rparr>
     \<lparr>b_id = 0, b_x = Fin 35, b_y = Fin 1, b_u = Fin 0, b_v = Fin 0, b_mass = Fin 1,
      b_drag_factor = Fin 1, b_grounding_depth = Fin (4 / 100)\<rparr> = (Fin 0, Fin 0)"
proof -
  let ?fl = "\<lparr>fl_h = Some (Fin (1 / 100)), fl_uflow = Fin 3, fl_vflow = Fin 4\<rparr>"
  let ?b = "\<lparr>b_id = 0, b_x = Fin 35, b_y = Fin 1, b_u = Fin 0, b_v = Fin 0, b_mass = Fin 1,
      b_drag_factor = Fin 1, b_grounding_depth = Fin (4 / 100)\<rparr>"
  have h: "fl_h ((\<lambda>x y. ?fl) (b_x ?b) (b_y ?b)) = Some (Fin (1 / 100))" by simp
  have g: "fl_lt (Fin (1 / 100)) (b_grounding_depth ?b)" by simp
  from grounded_no_drag [OF h g] show ?thesis by simp
qed

section \<open>The integrator: times of the path histories\<close>

lemma starts_at_add_particle:
  "starts_at t0 st \<Longrightarrow> starts_at t0 (add_particle t0 d x y st)"
  by (auto simp: starts_at_def add_particle_def)

lemma starts_at_dbnosA: "starts_at t0 st \<Longrightarrow> starts_at t0 (st\<lparr>dbnosA := l\<rparr>)"
  by (simp add: starts_at_def)

lemma starts_at_add_square: "starts_at t0 st \<Longrightarrow> starts_at t0 (add_square t0 k x y st)"
  by (simp add: add_square_def Let_def starts_at_add_particle starts_at_dbnosA)

lemma starts_at_init_loop: "starts_at t0 st \<Longrightarrow> starts_at t0 (init_loop t0 k pts st)"
  by (induction t0 k pts st rule: init_loop.induct) (simp_all add: starts_at_add_square)

lemma starts_at_init_particles: "starts_at t0 (init_particles t0 pts)"
proof -
  have "starts_at t0 (init_loop t0 0 pts particles_empty)"
    by (rule starts_at_init_loop) (simp add: starts_at_def particles_empty_def)
  then show ?thesis by (simp add: init_particles_unfold starts_at_def)
qed

lemma current_bodies_ok:
  assumes "\<forall>d \<in> set ds. (\<exists>db. paths d = Some db \<and> db \<noteq> []) \<and> d \<in> dom df \<and> d \<in> dom gd \<and> d \<in> dom m"
  shows "\<exists>bs. current_bodies paths df gd m ds = Inr bs \<and> map b_id bs = ds"
  using assms
proof (induction ds)
  case Nil
  then show ?case by simp
next
  case (Cons d ds)
  then obtain bs where bs: "current_bodies paths df gd m ds = Inr bs" "map b_id bs = ds"
    by auto
  from Cons.prems obtain db x y z where
    "paths d = Some db" "db \<noteq> []" "df d = Some x" "gd d = Some y" "m d = Some z"
    by auto
  then have "\<exists>b. current_body paths df gd m d = Inr b \<and> b_id b = d"
    by (simp add: current_body_def)
  with bs show ?case by auto
qed

lemma b_id_substep_body [simp]:
  "b_id (substep_body flow_here drag_law tether_fn dt bodies b) = b_id b"
  by (simp add: substep_body_def Let_def split: prod.splits)

lemma b_id_foldl_substep:
  "map b_id (foldl (\<lambda>bs i. map (substep_body (fl i) drag_law tether_fn dt bs) bs) bodies is)
     = map b_id bodies"
  by (induction "is" arbitrary: bodies) (simp_all add: comp_def)

lemma b_id_substeps [simp]:
  "map b_id (substeps flow_at drag_law tether_fn n fk fk1 bodies) = map b_id bodies"
  unfolding substeps_def Let_def by (rule b_id_foldl_substep)

lemma append_samples_other:
  "d \<notin> b_id ` set bs \<Longrightarrow> append_samples t bs paths d = paths d"
  by (induction bs arbitrary: paths) auto

lemma append_samples_times:
  assumes "distinct (map b_id bs)" "d \<in> b_id ` set bs" "paths d = Some db"
  shows "\<exists>r. append_samples t bs paths d = Some (db @ [r]) \<and> s_t r = t"
  using assms
proof (induction bs arbitrary: paths)
  case Nil
  then show ?case by simp
next
  case (Cons b bs)
  show ?case
  proof (cases "b_id b = d")
    case True
    with Cons.prems have "d \<notin> b_id ` set bs" by auto
    with True Cons.prems(3) show ?thesis
      by (simp add: append_samples_other)
  next
    case False
    with Cons.prems have "d \<in> b_id ` set bs" "distinct (map b_id bs)" by auto
    moreover from False Cons.prems(3)
    have "(paths(b_id b \<mapsto> (case paths (b_id b) of None \<Rightarrow> [] | Some db \<Rightarrow> db) @
          [\<lparr>s_t = t, s_x = b_x b, s_y = b_y b, s_u = b_u b, s_v = b_v b\<rparr>])) d = Some db"
      by simp
    ultimately show ?thesis
      using Cons.IH by simp
  qed
qed

lemma frame_interval_ok:
  assumes "distinct ds" "histories_at ds paths ts"
    and "set ds \<subseteq> dom df" "set ds \<subseteq> dom gd" "set ds \<subseteq> dom m"
  shows "\<exists>paths'. frame_interval flow_at drag_law ds df gd m tether_fn n fk fk1 paths = Inr paths' \<and>
           histories_at ds paths' (ts @ [ff_t fk1])"
proof -
  from assms have "\<forall>d \<in> set ds. (\<exists>db. paths d = Some db \<and> db \<noteq> []) \<and> d \<in> dom df \<and> d \<in> dom gd \<and> d \<in> dom m"
    by (auto simp: histories_at_def)
  from current_bodies_ok [OF this] obtain bs where
    bs: "current_bodies paths df gd m ds = Inr bs" "map b_id bs = ds" by blast
  define bs' where "bs' = substeps flow_at drag_law tether_fn n fk fk1 bs"
  have ids: "map b_id bs' = ds" by (simp add: bs'_def bs)
  have "histories_at ds (append_samples (ff_t fk1) bs' paths) (ts @ [ff_t fk1])"
    unfolding histories_at_def
  proof
    fix d assume d: "d \<in> set ds"
    with assms(2) obtain db where db: "paths d = Some db" "map s_t db = ts"
      by (auto simp: histories_at_def)
    from d ids have "d \<in> b_id ` set bs'" by (metis set_map)
    moreover from ids assms(1) have "distinct (map b_id bs')" by simp
    ultimately obtain r where
      "append_samples (ff_t fk1) bs' paths d = Some (db @ [r])" "s_t r = ff_t fk1"
      using append_samples_times db(1) by blast
    with db show "\<exists>db. append_samples (ff_t fk1) bs' paths d = Some db \<and> db \<noteq> [] \<and>
        map s_t db = ts @ [ff_t fk1]"
      by simp
  qed
  then show ?thesis
    by (simp add: frame_interval_def bs bs'_def)
qed

lemma frame_intervals_ok:
  assumes "distinct ds" "histories_at ds paths ts"
    and "set ds \<subseteq> dom df" "set ds \<subseteq> dom gd" "set ds \<subseteq> dom m"
  shows "\<exists>paths'. frame_intervals flow_at drag_law ds df gd m tether_fn n fk fs paths = Inr paths' \<and>
           histories_at ds paths' (ts @ map ff_t fs)"
  using assms(2)
proof (induction fs arbitrary: fk paths ts)
  case Nil
  then show ?case by simp
next
  case (Cons fk1 fs)
  from frame_interval_ok [OF assms(1) Cons.prems assms(3-5)]
  obtain p1 where p1: "frame_interval flow_at drag_law ds df gd m tether_fn n fk fk1 paths = Inr p1"
    "histories_at ds p1 (ts @ [ff_t fk1])" by blast
  from Cons.IH [OF p1(2)] p1(1) show ?case by simp
qed

lemma init_particles_doms:
  "dom (drag_factor (init_particles t0 pts)) = set (dbnos (init_particles t0 pts))"
  "dom (grounding_depth (init_particles t0 pts)) = set (dbnos (init_particles t0 pts))"
  "dom (mass (init_particles t0 pts)) = set (dbnos (init_particles t0 pts))"
proof -
  have ok: "dicts_ok (init_loop t0 0 pts particles_empty)"
    by (rule dicts_ok_init_loop [OF dicts_ok_empty])
  then have sub: "set (dbnos (init_loop t0 0 pts particles_empty))
      \<subseteq> dom (mass (init_loop t0 0 pts particles_empty))"
    by (simp add: dicts_ok_def)
  from ok show "dom (drag_factor (init_particles t0 pts)) = set (dbnos (init_particles t0 pts))"
    "dom (grounding_depth (init_particles t0 pts)) = set (dbnos (init_particles t0 pts))"
    by (simp_all add: init_particles_unfold dicts_ok_def)
  from ok dom_mass_loop [OF sub]
  show "dom (mass (init_particles t0 pts)) = set (dbnos (init_particles t0 pts))"
    by (simp add: init_particles_unfold dicts_ok_def)
qed

text \<open>
  C5 (the initialisation from the source, the integrator as the specification describes
  it). Let the particles be initialised at the time of the first frame, with pairwise
  different ids. Then every history starts as exactly one row at that time; the
  integrator returns, and in its result the times of every history are exactly the
  times of the frames, and strictly increasing when those are.
\<close>

theorem path_history_times:
  assumes "distinct (dbnos (init_particles (ff_t f0) pts))"
  shows "let st = init_particles (ff_t f0) pts in
     (\<forall>d \<in> set (dbnos st). \<exists>r. debris_paths st d = Some [r] \<and> s_t r = ff_t f0) \<and>
     (\<exists>paths'.
        make_debris_paths_substeps flow_at drag_law (f0 # fs) (debris_paths st) (dbnos st)
          (drag_factor st) (grounding_depth st) (mass st) tether_fn nsubsteps = Inr paths' \<and>
        (\<forall>d \<in> set (dbnos st). \<exists>db. paths' d = Some db \<and>
           map s_t db = map ff_t (f0 # fs) \<and>
           (sorted_wrt fl_lt (map ff_t (f0 # fs)) \<longrightarrow> sorted_wrt fl_lt (map s_t db))))"
proof -
  define st where "st = init_particles (ff_t f0) pts"
  have start: "starts_at (ff_t f0) st"
    unfolding st_def by (rule starts_at_init_particles)
  then have h0: "histories_at (dbnos st) (debris_paths st) [ff_t f0]"
    by (fastforce simp: starts_at_def histories_at_def)
  have doms: "set (dbnos st) \<subseteq> dom (drag_factor st)" "set (dbnos st) \<subseteq> dom (grounding_depth st)"
    "set (dbnos st) \<subseteq> dom (mass st)"
    unfolding st_def by (simp_all add: init_particles_doms)
  from assms have dist: "distinct (dbnos st)" by (simp add: st_def)
  from frame_intervals_ok [OF dist h0 doms]
  obtain paths' where run: "frame_intervals flow_at drag_law (dbnos st) (drag_factor st)
      (grounding_depth st) (mass st) tether_fn nsubsteps f0 fs (debris_paths st) = Inr paths'"
    and fin: "histories_at (dbnos st) paths' ([ff_t f0] @ map ff_t fs)"
    by blast
  from fin have "\<forall>d \<in> set (dbnos st). \<exists>db. paths' d = Some db \<and>
           map s_t db = map ff_t (f0 # fs) \<and>
           (sorted_wrt fl_lt (map ff_t (f0 # fs)) \<longrightarrow> sorted_wrt fl_lt (map s_t db))"
    by (fastforce simp: histories_at_def)
  with run start show ?thesis
    unfolding st_def [symmetric] Let_def
    by (simp add: make_debris_paths_substeps_def starts_at_def)
qed

text \<open>
  The script's eight particles over three frames at the times 0, 1 and 2, in a flow at
  rest: the history of particle 3001 has the times 0, 1, 2.
\<close>

theorem path_history_times_witness:
  "distinct (dbnos (init_particles (Fin 0) script_points)) \<and>
   (\<exists>paths' db.
      make_debris_paths_substeps
        (\<lambda>fk fk1 n i x y. \<lparr>fl_h = Some (Fin 1), fl_uflow = Fin 0, fl_vflow = Fin 0\<rparr>)
        (\<lambda>r. r)
        [\<lparr>ff_t = Fin 0, ff_grid = ()\<rparr>, \<lparr>ff_t = Fin 1, ff_grid = ()\<rparr>, \<lparr>ff_t = Fin 2, ff_grid = ()\<rparr>]
        (debris_paths (init_particles (Fin 0) script_points))
        (dbnos (init_particles (Fin 0) script_points))
        (drag_factor (init_particles (Fin 0) script_points))
        (grounding_depth (init_particles (Fin 0) script_points))
        (mass (init_particles (Fin 0) script_points)) tether 20 = Inr paths' \<and>
      paths' 3001 = Some db \<and> map s_t db = [Fin 0, Fin 1, Fin 2] \<and>
      sorted_wrt fl_lt (map s_t db))"
proof -
  define f0 :: "unit flow_frame" where "f0 = \<lparr>ff_t = Fin 0, ff_grid = ()\<rparr>"
  define fs :: "unit flow_frame list" where
    "fs = [\<lparr>ff_t = Fin 1, ff_grid = ()\<rparr>, \<lparr>ff_t = Fin 2, ff_grid = ()\<rparr>]"
  define st where "st = init_particles (ff_t f0) script_points"
  define fa :: "unit flow_frame \<Rightarrow> unit flow_frame \<Rightarrow> nat \<Rightarrow> nat \<Rightarrow> pyfloat \<Rightarrow> pyfloat \<Rightarrow> flow"
    where "fa = (\<lambda>fk fk1 n i x y. \<lparr>fl_h = Some (Fin 1), fl_uflow = Fin 0, fl_vflow = Fin 0\<rparr>)"
  have t0: "ff_t f0 = Fin 0" by (simp add: f0_def)
  have d: "distinct (dbnos (init_particles (ff_t f0) script_points))"
    by (simp add: script_dbnos)
  have m: "(3001::int) \<in> set (dbnos st)"
    by (simp add: st_def script_dbnos)
  have ts: "map ff_t (f0 # fs) = [Fin 0, Fin 1, Fin 2]"
    by (simp add: f0_def fs_def)
  have s: "sorted_wrt fl_lt (map ff_t (f0 # fs))"
    unfolding ts by simp
  have "let st = init_particles (ff_t f0) script_points in
     (\<forall>d \<in> set (dbnos st). \<exists>r. debris_paths st d = Some [r] \<and> s_t r = ff_t f0) \<and>
     (\<exists>paths'.
        make_debris_paths_substeps fa (\<lambda>r. r) (f0 # fs) (debris_paths st) (dbnos st)
          (drag_factor st) (grounding_depth st) (mass st) tether 20 = Inr paths' \<and>
        (\<forall>d \<in> set (dbnos st). \<exists>db. paths' d = Some db \<and>
           map s_t db = map ff_t (f0 # fs) \<and>
           (sorted_wrt fl_lt (map ff_t (f0 # fs)) \<longrightarrow> sorted_wrt fl_lt (map s_t db))))"
    by (rule path_history_times [OF d])
  then have "\<exists>paths'.
        make_debris_paths_substeps fa (\<lambda>r. r) (f0 # fs) (debris_paths st) (dbnos st)
          (drag_factor st) (grounding_depth st) (mass st) tether 20 = Inr paths' \<and>
        (\<forall>d \<in> set (dbnos st). \<exists>db. paths' d = Some db \<and>
           map s_t db = map ff_t (f0 # fs) \<and>
           (sorted_wrt fl_lt (map ff_t (f0 # fs)) \<longrightarrow> sorted_wrt fl_lt (map s_t db)))"
    unfolding Let_def st_def by (rule conjunct2)
  then obtain paths' where
    run: "make_debris_paths_substeps fa (\<lambda>r. r) (f0 # fs) (debris_paths st) (dbnos st)
          (drag_factor st) (grounding_depth st) (mass st) tether 20 = Inr paths'"
    and all: "\<forall>d \<in> set (dbnos st). \<exists>db. paths' d = Some db \<and>
           map s_t db = map ff_t (f0 # fs) \<and>
           (sorted_wrt fl_lt (map ff_t (f0 # fs)) \<longrightarrow> sorted_wrt fl_lt (map s_t db))"
    by blast
  from all m s obtain db where db: "paths' 3001 = Some db"
    "map s_t db = map ff_t (f0 # fs)" "sorted_wrt fl_lt (map s_t db)"
    by blast
  from db(2) have db2: "map s_t db = [Fin 0, Fin 1, Fin 2]" by (simp only: ts)
  have fr: "f0 # fs = [\<lparr>ff_t = Fin 0, ff_grid = ()\<rparr>, \<lparr>ff_t = Fin 1, ff_grid = ()\<rparr>,
      \<lparr>ff_t = Fin 2, ff_grid = ()\<rparr>]"
    by (simp add: f0_def fs_def)
  have sti: "st = init_particles (Fin 0) script_points"
    by (simp only: st_def t0)
  from run have run': "make_debris_paths_substeps
        (\<lambda>fk fk1 n i x y. \<lparr>fl_h = Some (Fin 1), fl_uflow = Fin 0, fl_vflow = Fin 0\<rparr>)
        (\<lambda>r. r)
        [\<lparr>ff_t = Fin 0, ff_grid = ()\<rparr>, \<lparr>ff_t = Fin 1, ff_grid = ()\<rparr>, \<lparr>ff_t = Fin 2, ff_grid = ()\<rparr>]
        (debris_paths (init_particles (Fin 0) script_points))
        (dbnos (init_particles (Fin 0) script_points))
        (drag_factor (init_particles (Fin 0) script_points))
        (grounding_depth (init_particles (Fin 0) script_points))
        (mass (init_particles (Fin 0) script_points)) tether 20 = Inr paths'"
    unfolding fr fa_def sti .
  from d have d': "distinct (dbnos (init_particles (Fin 0) script_points))"
    by (simp only: t0)
  from run' db(1) db2 db(3) have "\<exists>paths' db.
      make_debris_paths_substeps
        (\<lambda>fk fk1 n i x y. \<lparr>fl_h = Some (Fin 1), fl_uflow = Fin 0, fl_vflow = Fin 0\<rparr>)
        (\<lambda>r. r)
        [\<lparr>ff_t = Fin 0, ff_grid = ()\<rparr>, \<lparr>ff_t = Fin 1, ff_grid = ()\<rparr>, \<lparr>ff_t = Fin 2, ff_grid = ()\<rparr>]
        (debris_paths (init_particles (Fin 0) script_points))
        (dbnos (init_particles (Fin 0) script_points))
        (drag_factor (init_particles (Fin 0) script_points))
        (grounding_depth (init_particles (Fin 0) script_points))
        (mass (init_particles (Fin 0) script_points)) tether 20 = Inr paths' \<and>
      paths' 3001 = Some db \<and> map s_t db = [Fin 0, Fin 1, Fin 2] \<and>
      sorted_wrt fl_lt (map s_t db)"
    by (intro exI conjI)
  with d' show ?thesis by (rule conjI)
qed

section \<open>Missing environment configuration\<close>

text \<open>
  C7. If \<open>CLAW\<close> is not set, loading the MonaiValley module raises an exception with
  the message of the script and defines nothing. With \<open>HOME\<close> set, loading the problem2
  module raises an error that names the topo directory when it is missing, and one that
  names the dtopo directory when only that is missing. Each module body is straight-line
  code: the lookup and the directory tests are made once.
\<close>

theorem missing_configuration_is_fatal:
  "(environ ''CLAW'' = None \<longrightarrow>
      monai_module environ = Inl (PyException ''*** Must first set CLAW enviornment variable'')) \<and>
   (environ ''HOME'' = Some home \<and> \<not> isdir (home @ ''/git/tohoku2011/topo/'') \<longrightarrow>
      japan_module environ isdir =
        Inl (OSError (''*** Missing topo directory: '' @ home @ ''/git/tohoku2011/topo/''))) \<and>
   (environ ''HOME'' = Some home \<and> isdir (home @ ''/git/tohoku2011/topo/'') \<and>
    \<not> isdir (home @ ''/git/tohoku2011-paper1/sources/'') \<longrightarrow>
      japan_module environ isdir =
        Inl (PyException
              (''*** Missing dtopo directory: '' @ home @ ''/git/tohoku2011-paper1/sources/'')))"
  by (simp add: monai_module_def japan_module_def environ_get_def Let_def)

theorem missing_configuration_is_fatal_witness:
  "monai_module Map.empty = Inl (PyException ''*** Must first set CLAW enviornment variable'') \<and>
   japan_module [''HOME'' \<mapsto> ''/home/u''] (\<lambda>d. False) =
     Inl (OSError ''*** Missing topo directory: /home/u/git/tohoku2011/topo/'') \<and>
   japan_module [''HOME'' \<mapsto> ''/home/u''] (\<lambda>d. d = ''/home/u/git/tohoku2011/topo/'') =
     Inl (PyException ''*** Missing dtopo directory: /home/u/git/tohoku2011-paper1/sources/'')"
proof -
  have a: "monai_module Map.empty =
      Inl (PyException ''*** Must first set CLAW enviornment variable'')"
    using missing_configuration_is_fatal [of Map.empty "''/home/u''" "\<lambda>d. False"] by simp
  have b: "japan_module [''HOME'' \<mapsto> ''/home/u''] (\<lambda>d. False) =
     Inl (OSError ''*** Missing topo directory: /home/u/git/tohoku2011/topo/'')"
    using missing_configuration_is_fatal
      [of "[''HOME'' \<mapsto> ''/home/u'']" "''/home/u''" "\<lambda>d. False"]
    by simp
  have c: "japan_module [''HOME'' \<mapsto> ''/home/u''] (\<lambda>d. d = ''/home/u/git/tohoku2011/topo/'') =
     Inl (PyException ''*** Missing dtopo directory: /home/u/git/tohoku2011-paper1/sources/'')"
    using missing_configuration_is_fatal
      [of "[''HOME'' \<mapsto> ''/home/u'']" "''/home/u''" "\<lambda>d. d = ''/home/u/git/tohoku2011/topo/''"]
    by simp
  from a b c show ?thesis by (intro conjI)
qed

section \<open>\<open>setgeo\<close> never gets past its guard\<close>

text \<open>
  C8. For every \<open>rundata\<close>, \<open>setgeo\<close> raises UnboundLocalError for its local
  \<open>geo_data\<close>; the result does not depend on \<open>rundata\<close>, which is not read; the
  AttributeError of the \<open>else\<close> branch is never the result; and \<open>setrun\<close>, whatever
  the constructor returns and whatever follows the call, ends in an exception.
\<close>

theorem setgeo_always_raises:
  "setgeo topodir' dtopodir' rundata = Inl (UnboundLocalError ''geo_data'') \<and>
   setgeo topodir' dtopodir' rundata = setgeo topodir' dtopodir' rundata' \<and>
   setgeo topodir' dtopodir' rundata \<noteq>
     Inl (AttributeError ''*** Error, this rundata has no geo_data attribute'') \<and>
   (\<exists>e. setrun ClawRunData rest topodir' dtopodir' claw_pkg = Inl e)"
proof -
  have g: "setgeo topodir' dtopodir' r = Inl (UnboundLocalError ''geo_data'')" for r
    by (simp add: setgeo_def read_local_def)
  have "\<exists>e. setrun ClawRunData rest topodir' dtopodir' claw_pkg = Inl e"
    by (cases "ClawRunData claw_pkg 2") (simp_all add: setrun_def g)
  with g show ?thesis by simp
qed

section \<open>Velocities in dry cells\<close>















end
